theory Spec2Isabelle
  imports Complex_Main "HOL-Library.Product_Lexorder" "HOL-Library.Sublist"
begin

section \<open>Common values: errors, paths, platforms\<close>

text \<open>
  Every \<^verbatim>\<open>throw\<close> and every rejected promise of the two source files is a
  value of type \<open>error\<close>; a function that can fail returns \<open>error + 'a\<close>, with
  \<open>Inl\<close> for the failure.
\<close>

datatype error =
    TypeError string
  | UnsupportedPlatform string
  | BinaryNotFound string
  | RequestFailed string
  | DecompressFailed string
  | InvalidVersion string
  | ReadFailed string
  | YamlError string

text \<open>
  A path is the string the program passes around. \<open>join\<close> stands for Node's
  \<^verbatim>\<open>path.join\<close> on two segments: it puts the separator between them.
  The normalisation that \<^verbatim>\<open>path.join\<close> also performs (\<^verbatim>\<open>..\<close>,
  doubled separators, the backslash of win32) is not modelled.
\<close>

definition join :: "string \<Rightarrow> string \<Rightarrow> string" where
  "join a b = a @ ''/'' @ b"

text \<open>
  \<^verbatim>\<open>path.join\<close> throws a TypeError when an argument is not a string. An argument
  that may be \<^verbatim>\<open>undefined\<close> is an \<open>option\<close>.
\<close>

fun join_all :: "string option list \<Rightarrow> error + string" where
  "join_all [] = Inr ''.''"
| "join_all [None] = Inl (TypeError ''The path argument must be of type string'')"
| "join_all [Some a] = Inr a"
| "join_all (None # _) = Inl (TypeError ''The path argument must be of type string'')"
| "join_all (Some a # rest) =
     (case join_all rest of Inl e \<Rightarrow> Inl e | Inr r \<Rightarrow> Inr (join a r))"

datatype platform = Win32 | Linux | Other string

section \<open>lib/chia.js: the supervisor of one chia process\<close>

subsection \<open>The object and its constructor\<close>

type_synonym proc = nat

text \<open>
  The constructor assigns \<^verbatim>\<open>binaryPath\<close>, \<^verbatim>\<open>rootDirectory\<close>,
  \<^verbatim>\<open>events\<close> and \<^verbatim>\<open>runningProcess\<close>. A child process is known by its
  handle; \<open>None\<close> is \<^verbatim>\<open>null\<close>.
\<close>

record chia =
  binaryPath :: string
  rootDirectory :: string
  runningProcess :: "proc option"

definition new_Chia :: "string \<Rightarrow> string \<Rightarrow> chia" where
  "new_Chia bp rd = \<lparr>binaryPath = bp, rootDirectory = rd, runningProcess = None\<rparr>"

definition clone :: "chia \<Rightarrow> chia" where
  "clone c = new_Chia (binaryPath c) (rootDirectory c)"

text \<open>
  No statement of the class assigns a property \<^verbatim>\<open>chiaRootDirectory\<close> to a
  \<^verbatim>\<open>Chia\<close> object (the constructor stores the directory as
  \<^verbatim>\<open>rootDirectory\<close>), so reading \<^verbatim>\<open>this.chiaRootDirectory\<close> yields
  \<^verbatim>\<open>undefined\<close> on every instance.
\<close>

definition chia_chiaRootDirectory :: "chia \<Rightarrow> string option" where
  "chia_chiaRootDirectory c = None"

subsection \<open>The configuration file\<close>

definition chiaConfigPath :: "chia \<Rightarrow> error + string" where
  "chiaConfigPath c = join_all [chia_chiaRootDirectory c, Some ''config'', Some ''config.yaml'']"

text \<open>
  The YAML library is a parameter: \<open>load\<close> parses a text, \<open>dump\<close> serialises a
  document, and either may throw. The disk maps a path to the text of the file there.
  \<^verbatim>\<open>writeConfig\<close> serialises first and computes the path second, as the source
  does.
\<close>

definition readConfig ::
  "(string \<Rightarrow> error + 'cfg) \<Rightarrow> chia \<Rightarrow> (string \<rightharpoonup> string) \<Rightarrow> error + 'cfg" where
  "readConfig load c disk =
     (case chiaConfigPath c of
        Inl e \<Rightarrow> Inl e
      | Inr p \<Rightarrow> (case disk p of None \<Rightarrow> Inl (ReadFailed p) | Some txt \<Rightarrow> load txt))"

definition writeConfig ::
  "('cfg \<Rightarrow> error + string) \<Rightarrow> chia \<Rightarrow> 'cfg \<Rightarrow> (string \<rightharpoonup> string)
     \<Rightarrow> (error + unit) \<times> (string \<rightharpoonup> string)" where
  "writeConfig dump c config disk =
     (case dump config of
        Inl e \<Rightarrow> (Inl e, disk)
      | Inr configYaml \<Rightarrow>
          (case chiaConfigPath c of
             Inl e \<Rightarrow> (Inl e, disk)
           | Inr p \<Rightarrow> (Inr (), disk(p \<mapsto> configYaml))))"

subsection \<open>Argument lists\<close>

text \<open>
  An element of an argument array is a JavaScript string or number. A finite JavaScript
  number is a rational; \<^verbatim>\<open>Math.round\<close> is \<open>\<lfloor>x + 1/2\<rfloor>\<close>, which is
  \<^const>\<open>round\<close>.
\<close>

datatype arg = Str string | Num rat

definition defaultArgs :: "chia \<Rightarrow> arg list" where
  "defaultArgs c = [Str ''--root-path'', Str (rootDirectory c)]"

definition init_args :: "chia \<Rightarrow> arg list" where
  "init_args c = defaultArgs c @ [Str ''init'']"

definition startDaemon_args :: "chia \<Rightarrow> arg list" where
  "startDaemon_args c = defaultArgs c @ [Str ''run_daemon'']"

definition startHarvester_args :: "chia \<Rightarrow> arg list" where
  "startHarvester_args c = defaultArgs c @ [Str ''start'', Str ''harvester'']"

text \<open>
  The parameter bag of \<^verbatim>\<open>createPlot\<close>. A property that the caller leaves out is
  \<open>None\<close>, and the default of the destructuring pattern replaces it. The two
  directories have no default.
\<close>

record plot_params =
  tempDirectory :: string
  destinationDirectory :: string
  kSize :: "rat option"
  threads :: "rat option"
  buckets :: "rat option"
  memoryInMib :: "rat option"
  farmerPublicKey :: "string option"
  poolPublicKey :: "string option"
  useBitfield :: "bool option"

definition required_only :: "string \<Rightarrow> string \<Rightarrow> plot_params" where
  "required_only t d =
     \<lparr>tempDirectory = t, destinationDirectory = d, kSize = None, threads = None,
      buckets = None, memoryInMib = None, farmerPublicKey = None, poolPublicKey = None,
      useBitfield = None\<rparr>"

definition or_default :: "'a \<Rightarrow> 'a option \<Rightarrow> 'a" where
  "or_default d x = (case x of None \<Rightarrow> d | Some v \<Rightarrow> v)"

text \<open>
  \<^verbatim>\<open>if (farmerPublicKey)\<close> tests truthiness: \<^verbatim>\<open>null\<close> (the default) and
  the empty string are falsy, every other string is truthy.
\<close>

definition key_flag :: "string \<Rightarrow> string option \<Rightarrow> arg list" where
  "key_flag flag key = (case key of None \<Rightarrow> [] | Some k \<Rightarrow> if k = [] then [] else [Str flag, Str k])"

definition createPlot_args :: "chia \<Rightarrow> plot_params \<Rightarrow> arg list" where
  "createPlot_args c p =
     defaultArgs c @
     [Str ''plots'', Str ''create'',
      Str ''-k'', Num (or_default 32 (kSize p)),
      Str ''-r'', Num (or_default 2 (threads p)),
      Str ''-u'', Num (or_default 128 (buckets p)),
      Str ''-b'', Num (of_int (round (or_default 4000 (memoryInMib p)))),
      Str ''-t'', Str (tempDirectory p),
      Str ''-2'', Str (destinationDirectory p),
      Str ''-d'', Str (destinationDirectory p)] @
     key_flag ''-f'' (farmerPublicKey p) @
     key_flag ''-p'' (poolPublicKey p) @
     (if \<not> or_default False (useBitfield p) then [Str ''-e''] else [])"

subsection \<open>Spawning and waiting for the exit\<close>

definition basename :: "string \<Rightarrow> string" where
  "basename p = rev (takeWhile (\<lambda>c. c \<noteq> CHR ''/'') (rev p))"

definition dirname :: "string \<Rightarrow> string" where
  "dirname p = rev (drop 1 (dropWhile (\<lambda>c. c \<noteq> CHR ''/'') (rev p)))"

record spawn_call =
  command :: string
  argv :: "arg list"
  cwd :: string

definition spawnBinary :: "chia \<Rightarrow> arg list \<Rightarrow> spawn_call" where
  "spawnBinary c args =
     \<lparr>command = ''./'' @ basename (binaryPath c), argv = args, cwd = dirname (binaryPath c)\<rparr>"

text \<open>
  The child process emits \<^verbatim>\<open>close\<close> with its exit code (\<^verbatim>\<open>null\<close>, here
  \<open>None\<close>, when a signal ended it) and \<^verbatim>\<open>error\<close> with the spawn error.
\<close>

datatype signal = Close "int option" | Error string

text \<open>
  What the executor of \<^verbatim>\<open>_closed\<close> calls: \<^verbatim>\<open>resolve()\<close>,
  \<^verbatim>\<open>reject(code)\<close> or \<^verbatim>\<open>reject(err)\<close>.
\<close>

datatype settlement = Resolve | RejectCode "int option" | RejectError string

text \<open>
  The state of one \<^verbatim>\<open>_closed\<close> promise: the flag \<^verbatim>\<open>resolved\<close>, whether
  each of the two \<^verbatim>\<open>once\<close> listeners is still attached, and the calls made to
  \<^verbatim>\<open>resolve\<close> and \<^verbatim>\<open>reject\<close> so far, in order.
\<close>

record closed_state =
  resolved :: bool
  close_listener :: bool
  error_listener :: bool
  calls :: "settlement list"

definition closed_init :: closed_state where
  "closed_init = \<lparr>resolved = False, close_listener = True, error_listener = True, calls = []\<rparr>"

fun fire :: "closed_state \<Rightarrow> signal \<Rightarrow> closed_state" where
  "fire s (Close code) =
     (if \<not> close_listener s then s
      else if resolved s then s\<lparr>close_listener := False\<rparr>
      else s\<lparr>close_listener := False, resolved := True,
             calls := calls s @ [if code = Some 0 then Resolve else RejectCode code]\<rparr>)"
| "fire s (Error err) =
     (if \<not> error_listener s then s
      else if resolved s then s\<lparr>error_listener := False\<rparr>
      else s\<lparr>error_listener := False, resolved := True,
             calls := calls s @ [RejectError err]\<rparr>)"

definition closed :: "signal list \<Rightarrow> closed_state" where
  "closed sigs = foldl fire closed_init sigs"

text \<open>
  A promise takes the first call to \<^verbatim>\<open>resolve\<close> or \<^verbatim>\<open>reject\<close>; before
  any call it is pending (\<open>None\<close>).
\<close>

definition waitForExit :: "signal list \<Rightarrow> settlement option" where
  "waitForExit sigs = (case calls (closed sigs) of [] \<Rightarrow> None | x # _ \<Rightarrow> Some x)"

definition spawnBinaryAndWaitForClose ::
  "chia \<Rightarrow> arg list \<Rightarrow> proc \<Rightarrow> signal list \<Rightarrow> chia \<times> spawn_call \<times> settlement option" where
  "spawnBinaryAndWaitForClose c args h sigs =
     (c\<lparr>runningProcess := Some h\<rparr>, spawnBinary c args, waitForExit sigs)"

definition createPlot ::
  "chia \<Rightarrow> plot_params \<Rightarrow> proc \<Rightarrow> signal list \<Rightarrow> chia \<times> spawn_call \<times> settlement option" where
  "createPlot c p h sigs = spawnBinaryAndWaitForClose c (createPlot_args c p) h sigs"

subsection \<open>kill\<close>

text \<open>
  \<^verbatim>\<open>kill\<close> is an async function with one \<^verbatim>\<open>await\<close>. Its result here is
  the object as it stands when the function returns or suspends, the processes asked to
  terminate before that point, and the timer (in milliseconds) it is suspended on, if any.
  Nothing runs after the timer.
\<close>

record kill_result =
  after :: chia
  killed :: "proc list"
  grace_ms :: "nat option"

definition kill :: "chia \<Rightarrow> kill_result" where
  "kill c =
     (case runningProcess c of
        None \<Rightarrow> \<lparr>after = c, killed = [], grace_ms = None\<rparr>
      | Some p \<Rightarrow> \<lparr>after = c\<lparr>runningProcess := None\<rparr>, killed = [p], grace_ms = Some 1000\<rparr>)"

section \<open>The binary manager\<close>

subsection \<open>The platform's file names\<close>

definition repo :: string where
  "repo = ''chia-binary-manager''"

definition releaseUrl :: string where
  "releaseUrl = ''https://api.github.com/repos/felixbrucker/'' @ repo @ ''/releases/40423266''"

definition binaryName :: "platform \<Rightarrow> string" where
  "binaryName pf = (if pf = Win32 then ''chia.exe'' else ''chia'')"

definition getDownloadUrl :: "platform \<Rightarrow> string \<Rightarrow> error + string" where
  "getDownloadUrl pf v =
     (case pf of
        Win32 \<Rightarrow> Inr (''https://github.com/felixbrucker/'' @ repo @ ''/releases/download/binaries/chia-'' @ v @ ''-win.zip'')
      | Linux \<Rightarrow> Inr (''https://github.com/felixbrucker/'' @ repo @ ''/releases/download/binaries/chia-'' @ v @ ''-linux.zip'')
      | Other p \<Rightarrow> Inl (UnsupportedPlatform p))"

text \<open>
  The two regular expressions differ in one word only:
  \<^verbatim>\<open>/chia-([0-9]+\.[0-9]+\.[0-9]+)-win.zip/\<close> and the same with \<^verbatim>\<open>linux\<close>.
  Neither is anchored, and the dot before \<^verbatim>\<open>zip\<close> is not escaped: it stands
  for any character but a line terminator. A run of digits is always followed by a
  character that is not a digit, so the greedy \<^verbatim>\<open>[0-9]+\<close> never has to give a
  digit back, and a match attempt at one position is a single pass.
\<close>

definition digit :: "char \<Rightarrow> bool" where
  "digit c = (c \<in> set ''0123456789'')"

fun strip :: "string \<Rightarrow> string \<Rightarrow> string option" where
  "strip [] s = Some s"
| "strip (p # ps) [] = None"
| "strip (p # ps) (c # cs) = (if p = c then strip ps cs else None)"

definition digits1 :: "string \<Rightarrow> (string \<times> string) option" where
  "digits1 s =
     (let ds = takeWhile digit s in if ds = [] then None else Some (ds, dropWhile digit s))"

definition any_char :: "string \<Rightarrow> string option" where
  "any_char s =
     (case s of
        [] \<Rightarrow> None
      | c # r \<Rightarrow> if c = CHR 0x0A \<or> c = CHR 0x0D then None else Some r)"

text \<open>A match attempt at the start of \<open>s\<close>; the result is capture group 1.\<close>

definition match_at :: "string \<Rightarrow> string \<Rightarrow> string option" where
  "match_at word s =
     Option.bind (strip ''chia-'' s) (\<lambda>r0.
     Option.bind (digits1 r0) (\<lambda>(a, r1).
     Option.bind (strip ''.'' r1) (\<lambda>r2.
     Option.bind (digits1 r2) (\<lambda>(b, r3).
     Option.bind (strip ''.'' r3) (\<lambda>r4.
     Option.bind (digits1 r4) (\<lambda>(c, r5).
     Option.bind (strip (''-'' @ word) r5) (\<lambda>r6.
     Option.bind (any_char r6) (\<lambda>r7.
     Option.bind (strip ''zip'' r7) (\<lambda>r8.
       Some (a @ ''.'' @ b @ ''.'' @ c))))))))))"

text \<open>\<^verbatim>\<open>String.prototype.match\<close> tries every start position from the left.\<close>

fun regex_match :: "string \<Rightarrow> string \<Rightarrow> string option" where
  "regex_match word [] = match_at word []"
| "regex_match word (c # cs) =
     (case match_at word (c # cs) of Some v \<Rightarrow> Some v | None \<Rightarrow> regex_match word cs)"

definition binaryZipRegex :: "platform \<Rightarrow> error + (string \<Rightarrow> string option)" where
  "binaryZipRegex pf =
     (case pf of
        Win32 \<Rightarrow> Inr (regex_match ''win'')
      | Linux \<Rightarrow> Inr (regex_match ''linux'')
      | Other p \<Rightarrow> Inl (UnsupportedPlatform p))"

subsection \<open>The world outside the program\<close>

text \<open>
  An asset of the release feed is a JSON object. The program reads its
  \<^verbatim>\<open>name\<close> and reads and writes its \<^verbatim>\<open>version\<close>; \<open>None\<close> is a
  property that is absent. A \<^verbatim>\<open>version\<close> that the feed itself carries is
  taken to be a string.
\<close>

record asset =
  name :: string
  version :: "string option"

text \<open>
  The body of a successful HTTP response: the JSON of the release feed, an archive with
  the names of its entries, an archive that cannot be unpacked, or anything else.
\<close>

datatype body = Feed "asset list" | Archive "string list" | Corrupt | Opaque

datatype effect =
    HttpGet string
  | Mkdirp string
  | WriteStream string
  | Decompress string string
  | Unlink string

text \<open>
  The world is the set of paths that exist and the effects performed so far, oldest
  first. The environment is what the program cannot choose: the platform, the directories
  of the operating system, and the answer to each HTTP request. The answer may change
  over time; the time of a request is the number of effects before it. \<open>None\<close> is a
  request that \<^verbatim>\<open>axios\<close> rejects (transport failure or an error status).
  Operations on the local disk are taken to succeed.
\<close>

record world =
  files :: "string set"
  trace :: "effect list"

record env =
  platform :: platform
  tmpdir :: string
  homedir :: string
  http :: "nat \<Rightarrow> string \<Rightarrow> body option"

definition existsSync :: "string \<Rightarrow> world \<Rightarrow> bool" where
  "existsSync p w = (p \<in> files w)"

definition axios_get :: "env \<Rightarrow> string \<Rightarrow> world \<Rightarrow> body option \<times> world" where
  "axios_get e url w = (http e (length (trace w)) url, w\<lparr>trace := trace w @ [HttpGet url]\<rparr>)"

text \<open>\<^verbatim>\<open>mkdirp\<close> creates the directory and every missing parent.\<close>

definition dirs :: "string \<Rightarrow> string list" where
  "dirs d = filter (\<lambda>p. p \<noteq> [] \<and> (p = d \<or> take 1 (drop (length p) d) = ''/'')) (prefixes d)"

definition mkdirp :: "string \<Rightarrow> world \<Rightarrow> world" where
  "mkdirp d w = w\<lparr>files := files w \<union> set (dirs d), trace := trace w @ [Mkdirp d]\<rparr>"

definition createWriteStream :: "string \<Rightarrow> world \<Rightarrow> world" where
  "createWriteStream p w = w\<lparr>files := insert p (files w), trace := trace w @ [WriteStream p]\<rparr>"

definition entries :: "body \<Rightarrow> string list" where
  "entries b = (case b of Archive es \<Rightarrow> es | _ \<Rightarrow> [])"

definition decompress :: "string \<Rightarrow> string \<Rightarrow> string list \<Rightarrow> world \<Rightarrow> world" where
  "decompress zipFile dir es w =
     w\<lparr>files := files w \<union> set (map (join dir) es),
       trace := trace w @ [Decompress zipFile dir]\<rparr>"

definition unlink :: "string \<Rightarrow> world \<Rightarrow> world" where
  "unlink p w = w\<lparr>files := files w - {p}, trace := trace w @ [Unlink p]\<rparr>"

definition is_request :: "effect \<Rightarrow> bool" where
  "is_request x = (case x of HttpGet u \<Rightarrow> True | _ \<Rightarrow> False)"

definition is_extraction :: "effect \<Rightarrow> bool" where
  "is_extraction x = (case x of Decompress z d \<Rightarrow> True | _ \<Rightarrow> False)"

subsection \<open>Comparing versions\<close>

text \<open>
  The npm package \<^verbatim>\<open>semver\<close> is not part of the repository. It enters the model
  as the parameter \<open>parse\<close>: the function from a version string to the value that
  \<^verbatim>\<open>semver\<close> orders it by, \<open>None\<close> when the string is not a valid version.
  The values are linearly ordered. \<^verbatim>\<open>semver.gte\<close> and \<^verbatim>\<open>semver.lte\<close>
  parse both arguments and throw a TypeError when either is not a valid version.
\<close>

definition semver_of :: "(string \<Rightarrow> 'v option) \<Rightarrow> string option \<Rightarrow> error + 'v" where
  "semver_of parse x =
     (case x of
        None \<Rightarrow> Inl (TypeError ''Invalid Version: undefined'')
      | Some s \<Rightarrow> (case parse s of None \<Rightarrow> Inl (InvalidVersion s) | Some v \<Rightarrow> Inr v))"

definition gte ::
  "(string \<Rightarrow> 'v::linorder option) \<Rightarrow> string option \<Rightarrow> string option \<Rightarrow> error + bool" where
  "gte parse a b =
     (case semver_of parse a of
        Inl e \<Rightarrow> Inl e
      | Inr x \<Rightarrow> (case semver_of parse b of Inl e \<Rightarrow> Inl e | Inr y \<Rightarrow> Inr (y \<le> x)))"


text \<open>
  The instance of \<open>parse\<close> for the strings the two regular expressions capture:
  three runs of digits between dots. \<^verbatim>\<open>semver\<close> accepts such a string when no
  run has a leading zero, no number exceeds \<^verbatim>\<open>Number.MAX_SAFE_INTEGER\<close> and the
  string has at most 256 characters, and orders it by the three numbers, the first
  weighing most. Versions with a pre-release or build suffix are outside this instance.
\<close>

definition number_of :: "string \<Rightarrow> nat" where
  "number_of ds = foldl (\<lambda>n c. 10 * n + (of_char c - 48)) 0 ds"

definition numeric_identifier :: "string \<Rightarrow> nat option" where
  "numeric_identifier ds =
     (if ds = [] \<or> \<not> list_all digit ds then None
      else if 1 < length ds \<and> hd ds = CHR ''0'' then None
      else if 9007199254740991 < number_of ds then None
      else Some (number_of ds))"

definition semver_plain :: "string \<Rightarrow> (nat \<times> nat \<times> nat) option" where
  "semver_plain s =
     (if 256 < length s then None
      else
        Option.bind (digits1 s) (\<lambda>(a, r1).
        Option.bind (strip ''.'' r1) (\<lambda>r2.
        Option.bind (digits1 r2) (\<lambda>(b, r3).
        Option.bind (strip ''.'' r3) (\<lambda>r4.
        Option.bind (digits1 r4) (\<lambda>(c, r5).
          if r5 \<noteq> [] then None
          else
            Option.bind (numeric_identifier a) (\<lambda>x.
            Option.bind (numeric_identifier b) (\<lambda>y.
            Option.bind (numeric_identifier c) (\<lambda>z. Some (x, y, z))))))))))"

subsection \<open>The latest release\<close>

text \<open>
  The callback of \<^verbatim>\<open>data.assets.map\<close> reads the getter
  \<^verbatim>\<open>_binaryZipRegex\<close> once for each asset, so an unsupported platform throws at
  the first asset and not at all on an empty list. The asset is changed in place:
  \<^verbatim>\<open>version\<close> is assigned when the name matches and left as it is otherwise.
\<close>

definition tag_asset :: "platform \<Rightarrow> asset \<Rightarrow> error + asset" where
  "tag_asset pf a =
     (case binaryZipRegex pf of
        Inl e \<Rightarrow> Inl e
      | Inr re \<Rightarrow> Inr (case re (name a) of None \<Rightarrow> a | Some v \<Rightarrow> a\<lparr>version := Some v\<rparr>))"

fun map_assets :: "platform \<Rightarrow> asset list \<Rightarrow> error + asset list" where
  "map_assets pf [] = Inr []"
| "map_assets pf (a # as) =
     (case tag_asset pf a of
        Inl e \<Rightarrow> Inl e
      | Inr a' \<Rightarrow> (case map_assets pf as of Inl e \<Rightarrow> Inl e | Inr r \<Rightarrow> Inr (a' # r)))"

text \<open>\<^verbatim>\<open>!!asset.version\<close>: the property is there and is not the empty string.\<close>

definition has_version :: "asset \<Rightarrow> bool" where
  "has_version a = (case version a of None \<Rightarrow> False | Some v \<Rightarrow> v \<noteq> [])"

definition matchingAssets :: "asset list \<Rightarrow> asset list" where
  "matchingAssets assets = filter has_version assets"

text \<open>
  The callback of \<^verbatim>\<open>reduce\<close>, whose accumulator starts as \<^verbatim>\<open>null\<close>, and
  the reduction itself; a throw in the callback ends it.
\<close>

definition pick ::
  "(string \<Rightarrow> 'v::linorder option) \<Rightarrow> asset option \<Rightarrow> asset \<Rightarrow> error + asset option" where
  "pick parse latestReleaseAsset current =
     (case latestReleaseAsset of
        None \<Rightarrow> Inr (Some current)
      | Some l \<Rightarrow>
          (case gte parse (version l) (version current) of
             Inl e \<Rightarrow> Inl e
           | Inr b \<Rightarrow> Inr (Some (if b then l else current))))"

fun reduce ::
  "(string \<Rightarrow> 'v::linorder option) \<Rightarrow> asset option \<Rightarrow> asset list \<Rightarrow> error + asset option" where
  "reduce parse acc [] = Inr acc"
| "reduce parse acc (current # rest) =
     (case pick parse acc current of Inl e \<Rightarrow> Inl e | Inr acc' \<Rightarrow> reduce parse acc' rest)"

definition latest_of ::
  "(string \<Rightarrow> 'v::linorder option) \<Rightarrow> platform \<Rightarrow> asset list \<Rightarrow> error + asset option" where
  "latest_of parse pf assets =
     (case map_assets pf assets of
        Inl e \<Rightarrow> Inl e
      | Inr tagged \<Rightarrow> reduce parse None (matchingAssets tagged))"

definition getLatestRelease ::
  "(string \<Rightarrow> 'v::linorder option) \<Rightarrow> env \<Rightarrow> world \<Rightarrow> (error + asset option) \<times> world" where
  "getLatestRelease parse e w =
     (case axios_get e releaseUrl w of
        (None, w1) \<Rightarrow> (Inl (RequestFailed releaseUrl), w1)
      | (Some (Feed assets), w1) \<Rightarrow> (latest_of parse (platform e) assets, w1)
      | (Some _, w1) \<Rightarrow> (Inl (TypeError ''Cannot read properties of undefined''), w1))"

subsection \<open>The manager and the acquisition of a binary\<close>

text \<open>
  The constructor assigns the two directories and \<^verbatim>\<open>notifyOnUpdate\<close>;
  \<^verbatim>\<open>latestRelease\<close> is not assigned before \<^verbatim>\<open>init\<close>, and \<open>None\<close>
  stands for both \<^verbatim>\<open>undefined\<close> and \<^verbatim>\<open>null\<close>: reading
  \<^verbatim>\<open>.version\<close> throws on either. \<open>emitted\<close> holds the versions of the
  \<^verbatim>\<open>new-release\<close> events emitted so far, oldest first.
\<close>

record manager =
  binaryDirectory :: string
  chiaRootDirectory :: string
  notifyOnUpdate :: bool
  latestRelease :: "asset option"
  emitted :: "string list"

definition defaultBinaryDirectory :: "env \<Rightarrow> string" where
  "defaultBinaryDirectory e =
     join (join (join (homedir e) ''.config'') ''chia-binary-manager'') ''binaries''"

definition defaultChiaRootDirectory :: "env \<Rightarrow> string" where
  "defaultChiaRootDirectory e =
     join (join (join (homedir e) ''.config'') ''chia-binary-manager'') ''chia-root''"

definition new_BinaryManager ::
  "env \<Rightarrow> string option \<Rightarrow> string option \<Rightarrow> bool option \<Rightarrow> manager" where
  "new_BinaryManager e bd rd n =
     \<lparr>binaryDirectory = or_default (defaultBinaryDirectory e) bd,
      chiaRootDirectory = or_default (defaultChiaRootDirectory e) rd,
      notifyOnUpdate = or_default True n,
      latestRelease = None,
      emitted = []\<rparr>"

definition getBinaryDirectory :: "manager \<Rightarrow> string \<Rightarrow> string" where
  "getBinaryDirectory m v = join (binaryDirectory m) v"

definition binaryPath_of :: "manager \<Rightarrow> env \<Rightarrow> string \<Rightarrow> string" where
  "binaryPath_of m e v = join (getBinaryDirectory m v) (binaryName (platform e))"

text \<open>
  The URL is an argument of \<^verbatim>\<open>axios.get\<close>, so an unsupported platform throws
  before the request. A body that is no archive unpacks to nothing; an archive that cannot
  be unpacked rejects, and the temporary file stays.
\<close>

definition downloadBinary :: "manager \<Rightarrow> env \<Rightarrow> string \<Rightarrow> world \<Rightarrow> (error + unit) \<times> world" where
  "downloadBinary m e v w =
     (let tempDir = join (tmpdir e) ''chia-binary-manager'';
          w1 = mkdirp tempDir w;
          zipFilePath = join tempDir (''chia-'' @ v @ ''.zip'')
      in case getDownloadUrl (platform e) v of
           Inl err \<Rightarrow> (Inl err, w1)
         | Inr url \<Rightarrow>
             (case axios_get e url w1 of
                (None, w2) \<Rightarrow> (Inl (RequestFailed url), w2)
              | (Some b, w2) \<Rightarrow>
                  (let w3 = createWriteStream zipFilePath w2 in
                   if b = Corrupt
                   then (Inl (DecompressFailed zipFilePath),
                         w3\<lparr>trace := trace w3 @ [Decompress zipFilePath (getBinaryDirectory m v)]\<rparr>)
                   else (Inr (),
                         unlink zipFilePath
                           (decompress zipFilePath (getBinaryDirectory m v) (entries b) w3)))))"

definition ensureVersionExists ::
  "manager \<Rightarrow> env \<Rightarrow> string \<Rightarrow> world \<Rightarrow> (error + unit) \<times> world" where
  "ensureVersionExists m e v w =
     (let binaryDirectoryForVersion = getBinaryDirectory m v;
          binaryPath = join binaryDirectoryForVersion (binaryName (platform e))
      in if existsSync binaryPath w then (Inr (), w)
         else
           (case downloadBinary m e v (mkdirp binaryDirectoryForVersion w) of
              (Inl err, w') \<Rightarrow> (Inl err, w')
            | (Inr u, w') \<Rightarrow>
                if \<not> existsSync binaryPath w' then (Inl (BinaryNotFound binaryPath), w')
                else (Inr (), w')))"




subsection \<open>Polling for a newer release\<close>




subsection \<open>Notions used to state the properties\<close>

text \<open>
  The version that the platform's pattern captures from an asset name; \<open>None\<close> when
  the name does not match or the platform has no pattern.
\<close>

definition name_version :: "platform \<Rightarrow> string \<Rightarrow> string option" where
  "name_version pf n = (case binaryZipRegex pf of Inl e \<Rightarrow> None | Inr re \<Rightarrow> re n)"


definition requests :: "world \<Rightarrow> nat" where
  "requests w = length (filter is_request (trace w))"

definition extractions :: "world \<Rightarrow> nat" where
  "extractions w = length (filter is_extraction (trace w))"

text \<open>The asset as the callback of \<^verbatim>\<open>map\<close> leaves it on a platform with a pattern.\<close>

definition tagged :: "platform \<Rightarrow> asset \<Rightarrow> asset" where
  "tagged pf a = (case name_version pf (name a) of None \<Rightarrow> a | Some v \<Rightarrow> a\<lparr>version := Some v\<rparr>)"



subsection \<open>Concrete inputs\<close>

text \<open>
  An environment whose release feed always lists \<open>assets\<close> and whose every other URL
  serves an archive holding the single entry \<^verbatim>\<open>chia\<close>; an empty disk; a manager
  and a supervisor as their constructors build them.
\<close>

definition ex_env :: "platform \<Rightarrow> asset list \<Rightarrow> env" where
  "ex_env pf assets =
     \<lparr>platform = pf, tmpdir = ''/tmp'', homedir = ''/home/u'',
      http = (\<lambda>t url. if url = releaseUrl then Some (Feed assets) else Some (Archive [''chia'']))\<rparr>"

definition ex_world :: world where
  "ex_world = \<lparr>files = {}, trace = []\<rparr>"

definition ex_feed :: "asset list" where
  "ex_feed = [\<lparr>name = ''chia-1.2.0-linux.zip'', version = None\<rparr>,
              \<lparr>name = ''chia-1.10.0-linux.zip'', version = None\<rparr>,
              \<lparr>name = ''chia-2.0.0-win.zip'', version = None\<rparr>]"

definition ex_manager :: manager where
  "ex_manager = new_BinaryManager (ex_env Linux ex_feed) (Some ''/b'') (Some ''/r'') None"


section \<open>Properties of the supervisor\<close>

lemma fire_resolved:
  "resolved s \<Longrightarrow> resolved (fire s sg) \<and> calls (fire s sg) = calls s"
  by (cases sg) auto

lemma foldl_fire_resolved:
  "resolved s \<Longrightarrow> calls (foldl fire s sgs) = calls s"
  by (induction sgs arbitrary: s) (simp_all add: fire_resolved)

lemma first_signal_settles:
  "resolved (fire closed_init sg) \<and>
   calls (fire closed_init sg) =
     [case sg of Close code \<Rightarrow> if code = Some 0 then Resolve else RejectCode code
               | Error err \<Rightarrow> RejectError err]"
  by (cases sg) (simp_all add: closed_init_def)

lemma calls_closed_Cons: "calls (closed (sg # sgs)) = calls (fire closed_init sg)"
  by (simp add: closed_def foldl_fire_resolved first_signal_settles)

text \<open>
  \<^bold>\<open>C2.\<close> For a single spawn and any sequence of \<^verbatim>\<open>close\<close> and
  \<^verbatim>\<open>error\<close> signals, the promise of \<^verbatim>\<open>_closed\<close> is pending until the
  first signal and settled by it alone: it resolves exactly when that signal is a close
  with exit code 0, rejects with the code for a close with any other code, and rejects
  with the spawn error for an error signal. The executor calls \<^verbatim>\<open>resolve\<close> or
  \<^verbatim>\<open>reject\<close> exactly once; every later signal is ignored.
\<close>

theorem waitForExit_settles_once:
  "waitForExit [] = None
   \<and> calls (closed (sg # sgs)) = calls (closed [sg])
   \<and> length (calls (closed (sg # sgs))) = 1
   \<and> waitForExit (sg # sgs) = waitForExit [sg]
   \<and> (waitForExit (sg # sgs) = Some Resolve) = (sg = Close (Some 0))
   \<and> (code \<noteq> Some 0 \<longrightarrow> waitForExit (Close code # sgs) = Some (RejectCode code))
   \<and> waitForExit (Error err # sgs) = Some (RejectError err)"
proof -
  have first: "\<And>x xs. calls (closed (x # xs)) =
      [case x of Close code \<Rightarrow> if code = Some 0 then Resolve else RejectCode code
               | Error err \<Rightarrow> RejectError err]"
    by (simp add: calls_closed_Cons first_signal_settles)
  have pending: "waitForExit [] = None"
    by (simp add: waitForExit_def closed_def closed_init_def)
  have same: "calls (closed (sg # sgs)) = calls (closed [sg])"
    by (simp add: first)
  have one: "length (calls (closed (sg # sgs))) = 1"
    by (simp add: first)
  have w: "waitForExit (sg # sgs) = waitForExit [sg]"
    by (simp add: waitForExit_def first)
  have ok: "(waitForExit (sg # sgs) = Some Resolve) = (sg = Close (Some 0))"
    by (cases sg) (simp_all add: waitForExit_def first)
  have code: "code \<noteq> Some 0 \<longrightarrow> waitForExit (Close code # sgs) = Some (RejectCode code)"
    by (simp add: waitForExit_def first)
  have err: "waitForExit (Error err # sgs) = Some (RejectError err)"
    by (simp add: waitForExit_def first)
  from pending same one w ok code err show ?thesis by blast
qed

text \<open>Three runs: a failing exit followed by late signals, a clean exit, a spawn error.\<close>

theorem waitForExit_settles_once_witness:
  "waitForExit [Close (Some 3), Error ''ENOENT'', Close (Some 0)] = Some (RejectCode (Some 3))
   \<and> waitForExit [Close (Some 0), Error ''late''] = Some Resolve
   \<and> calls (closed [Error ''ENOENT'', Close (Some 0)]) = [RejectError ''ENOENT'']"
proof -
  have a: "Some (3::int) \<noteq> Some 0" by simp
  have "waitForExit [Close (Some 3), Error ''ENOENT'', Close (Some 0)] = Some (RejectCode (Some 3))"
    using waitForExit_settles_once [of "Close (Some 3)" "[Error ''ENOENT'', Close (Some 0)]" "Some 3"] a
    by blast
  moreover have "waitForExit [Close (Some 0), Error ''late''] = Some Resolve"
    using waitForExit_settles_once [of "Close (Some 0)" "[Error ''late'']"] by blast
  moreover have "calls (closed [Error ''ENOENT'', Close (Some 0)]) = [RejectError ''ENOENT'']"
    using waitForExit_settles_once [of "Error ''ENOENT''" "[Close (Some 0)]"]
    by (simp add: closed_def closed_init_def)
  ultimately show ?thesis by blast
qed

text \<open>
  \<^bold>\<open>C9.\<close> Without a tracked process \<^verbatim>\<open>kill\<close> returns at once: no
  termination request, no timer, the object unchanged. With a tracked process it sends
  one termination request to it and has cleared \<^verbatim>\<open>runningProcess\<close> when it
  suspends on the timer of 1000 ms, so a \<^verbatim>\<open>kill\<close> that follows, even before
  the timer fires, does nothing.
\<close>

theorem kill_clears_before_grace:
  "(runningProcess c = None \<longrightarrow> kill c = \<lparr>after = c, killed = [], grace_ms = None\<rparr>)
   \<and> (runningProcess c = Some p \<longrightarrow>
        killed (kill c) = [p]
        \<and> grace_ms (kill c) = Some 1000
        \<and> runningProcess (after (kill c)) = None
        \<and> kill (after (kill c)) = \<lparr>after = after (kill c), killed = [], grace_ms = None\<rparr>)"
  by (simp add: kill_def)

text \<open>A fresh supervisor, and one that tracks the process with handle 7.\<close>

theorem kill_clears_before_grace_witness:
  "kill (new_Chia ''/b/chia'' ''/r'') =
     \<lparr>after = new_Chia ''/b/chia'' ''/r'', killed = [], grace_ms = None\<rparr>
   \<and> killed (kill ((new_Chia ''/b/chia'' ''/r'')\<lparr>runningProcess := Some 7\<rparr>)) = [7]
   \<and> grace_ms (kill ((new_Chia ''/b/chia'' ''/r'')\<lparr>runningProcess := Some 7\<rparr>)) = Some 1000
   \<and> killed (kill (after (kill ((new_Chia ''/b/chia'' ''/r'')\<lparr>runningProcess := Some 7\<rparr>)))) = []"
proof -
  have n: "runningProcess (new_Chia ''/b/chia'' ''/r'') = None"
    by (simp add: new_Chia_def)
  have s: "runningProcess ((new_Chia ''/b/chia'' ''/r'')\<lparr>runningProcess := Some 7\<rparr>) = Some 7"
    by simp
  show ?thesis
    using kill_clears_before_grace [of "new_Chia ''/b/chia'' ''/r''"] n
      kill_clears_before_grace [of "(new_Chia ''/b/chia'' ''/r'')\<lparr>runningProcess := Some 7\<rparr>" 7] s
    by simp
qed

text \<open>
  \<^bold>\<open>C5.\<close> The property asks that \<^verbatim>\<open>writeConfig\<close> followed by
  \<^verbatim>\<open>readConfig\<close> succeeds and returns the document written. On the code both
  fail on every supervisor: the path is joined from \<^verbatim>\<open>this.chiaRootDirectory\<close>,
  which is \<^verbatim>\<open>undefined\<close>, so \<^verbatim>\<open>path.join\<close> throws; nothing is read
  and the disk is left as it was.
\<close>

theorem config_path_undefined:
  "chiaConfigPath c = Inl (TypeError ''The path argument must be of type string'')
   \<and> readConfig load c disk = Inl (TypeError ''The path argument must be of type string'')
   \<and> fst (writeConfig dump c config disk) \<noteq> Inr ()
   \<and> snd (writeConfig dump c config disk) = disk"
  by (simp add: chiaConfigPath_def chia_chiaRootDirectory_def readConfig_def writeConfig_def
      split: sum.splits)

text \<open>
  As first stated the property has every supplied key appended. A farmer key that is
  supplied as the empty string is not: the list is the one of the defaults.
\<close>

theorem createPlot_empty_key_counterexample:
  "createPlot_args (new_Chia ''/b/chia'' ''/r'')
     ((required_only ''/t'' ''/d'')\<lparr>farmerPublicKey := Some ''''\<rparr>) =
   [Str ''--root-path'', Str ''/r'', Str ''plots'', Str ''create'',
    Str ''-k'', Num 32, Str ''-r'', Num 2, Str ''-u'', Num 128, Str ''-b'', Num 4000,
    Str ''-t'', Str ''/t'', Str ''-2'', Str ''/d'', Str ''-d'', Str ''/d'', Str ''-e'']"
  by (simp add: createPlot_args_def defaultArgs_def new_Chia_def required_only_def
      or_default_def key_flag_def)

text \<open>
  \<^bold>\<open>C8\<close> (amended). With only the two directories \<^verbatim>\<open>createPlot\<close> passes
  \<^verbatim>\<open>-k 32 -r 2 -u 128 -b 4000\<close>, the directories, no key flag and the legacy flag
  \<^verbatim>\<open>-e\<close>; with \<^verbatim>\<open>useBitfield\<close> true the legacy flag is left out. For
  every parameter bag the list is the sixteen fixed positions, with the memory rounded
  to the nearest integer, followed by \<^verbatim>\<open>-f\<close> and the farmer key when that key is
  a non-empty string, by \<^verbatim>\<open>-p\<close> and the pool key when that key is a non-empty
  string, and by \<^verbatim>\<open>-e\<close> unless \<^verbatim>\<open>useBitfield\<close> is true. A key that is
  left out or is the empty string adds nothing.
\<close>

theorem createPlot_args_documented:
  "createPlot_args c (required_only t d) =
     [Str ''--root-path'', Str (rootDirectory c), Str ''plots'', Str ''create'',
      Str ''-k'', Num 32, Str ''-r'', Num 2, Str ''-u'', Num 128, Str ''-b'', Num 4000,
      Str ''-t'', Str t, Str ''-2'', Str d, Str ''-d'', Str d, Str ''-e'']
   \<and> createPlot_args c ((required_only t d)\<lparr>useBitfield := Some True\<rparr>) =
     [Str ''--root-path'', Str (rootDirectory c), Str ''plots'', Str ''create'',
      Str ''-k'', Num 32, Str ''-r'', Num 2, Str ''-u'', Num 128, Str ''-b'', Num 4000,
      Str ''-t'', Str t, Str ''-2'', Str d, Str ''-d'', Str d]
   \<and> createPlot_args c p =
     [Str ''--root-path'', Str (rootDirectory c), Str ''plots'', Str ''create'',
      Str ''-k'', Num (case kSize p of None \<Rightarrow> 32 | Some k \<Rightarrow> k),
      Str ''-r'', Num (case threads p of None \<Rightarrow> 2 | Some r \<Rightarrow> r),
      Str ''-u'', Num (case buckets p of None \<Rightarrow> 128 | Some u \<Rightarrow> u),
      Str ''-b'', Num (case memoryInMib p of None \<Rightarrow> 4000 | Some b \<Rightarrow> of_int \<lfloor>b + 1 / 2\<rfloor>),
      Str ''-t'', Str (tempDirectory p),
      Str ''-2'', Str (destinationDirectory p),
      Str ''-d'', Str (destinationDirectory p)]
     @ (case farmerPublicKey p of None \<Rightarrow> [] | Some f \<Rightarrow> if f = [] then [] else [Str ''-f'', Str f])
     @ (case poolPublicKey p of None \<Rightarrow> [] | Some k \<Rightarrow> if k = [] then [] else [Str ''-p'', Str k])
     @ (if useBitfield p = Some True then [] else [Str ''-e''])"
proof -
  have plain: "createPlot_args c (required_only t d) =
     [Str ''--root-path'', Str (rootDirectory c), Str ''plots'', Str ''create'',
      Str ''-k'', Num 32, Str ''-r'', Num 2, Str ''-u'', Num 128, Str ''-b'', Num 4000,
      Str ''-t'', Str t, Str ''-2'', Str d, Str ''-d'', Str d, Str ''-e'']"
    by (simp add: createPlot_args_def defaultArgs_def required_only_def or_default_def
        key_flag_def)
  have bitfield: "createPlot_args c ((required_only t d)\<lparr>useBitfield := Some True\<rparr>) =
     [Str ''--root-path'', Str (rootDirectory c), Str ''plots'', Str ''create'',
      Str ''-k'', Num 32, Str ''-r'', Num 2, Str ''-u'', Num 128, Str ''-b'', Num 4000,
      Str ''-t'', Str t, Str ''-2'', Str d, Str ''-d'', Str d]"
    by (simp add: createPlot_args_def defaultArgs_def required_only_def or_default_def
        key_flag_def)
  have memory: "rat_of_int (round (or_default 4000 (memoryInMib p))) =
      (case memoryInMib p of None \<Rightarrow> 4000 | Some b \<Rightarrow> of_int \<lfloor>b + 1 / 2\<rfloor>)"
  proof (cases "memoryInMib p")
    case None
    then show ?thesis by (simp add: or_default_def)
  next
    case (Some b)
    then show ?thesis by (simp add: or_default_def round_def)
  qed
  have legacy: "(\<not> or_default False (useBitfield p)) = (useBitfield p \<noteq> Some True)"
    by (cases "useBitfield p") (simp_all add: or_default_def)
  have general: "createPlot_args c p =
     [Str ''--root-path'', Str (rootDirectory c), Str ''plots'', Str ''create'',
      Str ''-k'', Num (case kSize p of None \<Rightarrow> 32 | Some k \<Rightarrow> k),
      Str ''-r'', Num (case threads p of None \<Rightarrow> 2 | Some r \<Rightarrow> r),
      Str ''-u'', Num (case buckets p of None \<Rightarrow> 128 | Some u \<Rightarrow> u),
      Str ''-b'', Num (case memoryInMib p of None \<Rightarrow> 4000 | Some b \<Rightarrow> of_int \<lfloor>b + 1 / 2\<rfloor>),
      Str ''-t'', Str (tempDirectory p),
      Str ''-2'', Str (destinationDirectory p),
      Str ''-d'', Str (destinationDirectory p)]
     @ (case farmerPublicKey p of None \<Rightarrow> [] | Some f \<Rightarrow> if f = [] then [] else [Str ''-f'', Str f])
     @ (case poolPublicKey p of None \<Rightarrow> [] | Some k \<Rightarrow> if k = [] then [] else [Str ''-p'', Str k])
     @ (if useBitfield p = Some True then [] else [Str ''-e''])"
    unfolding createPlot_args_def memory legacy
    by (simp add: defaultArgs_def or_default_def key_flag_def)
  from plain bitfield general show ?thesis by blast
qed

text \<open>Both keys supplied, the bitfield backend on, and a memory budget of 3500.5 MiB.\<close>

theorem createPlot_args_documented_witness:
  "createPlot_args (new_Chia ''/b/chia'' ''/r'')
     ((required_only ''/t'' ''/d'')
        \<lparr>memoryInMib := Some (7001 / 2), farmerPublicKey := Some ''a1'',
         poolPublicKey := Some ''b2'', useBitfield := Some True\<rparr>) =
   [Str ''--root-path'', Str ''/r'', Str ''plots'', Str ''create'',
    Str ''-k'', Num 32, Str ''-r'', Num 2, Str ''-u'', Num 128, Str ''-b'', Num 3501,
    Str ''-t'', Str ''/t'', Str ''-2'', Str ''/d'', Str ''-d'', Str ''/d'',
    Str ''-f'', Str ''a1'', Str ''-p'', Str ''b2'']"
proof -
  have r: "\<lfloor>(7001 / 2 :: rat) + 1 / 2\<rfloor> = 3501" by code_simp
  show ?thesis
    using createPlot_args_documented
      [of "new_Chia ''/b/chia'' ''/r''" "''/t''" "''/d''"
          "(required_only ''/t'' ''/d'')
             \<lparr>memoryInMib := Some (7001 / 2), farmerPublicKey := Some ''a1'',
              poolPublicKey := Some ''b2'', useBitfield := Some True\<rparr>"] r
    by (simp add: new_Chia_def required_only_def)
qed

section \<open>Properties of the release resolution\<close>




lemma tag_asset_supported:
  "pf = Win32 \<or> pf = Linux \<Longrightarrow> tag_asset pf a = Inr (tagged pf a)"
  by (auto simp: tag_asset_def tagged_def name_version_def binaryZipRegex_def)

lemma map_assets_supported:
  "pf = Win32 \<or> pf = Linux \<Longrightarrow> map_assets pf assets = Inr (map (tagged pf) assets)"
  by (induction assets) (simp_all add: tag_asset_supported)

lemma map_assets_unsupported:
  "map_assets (Other p) (a # as) = Inl (UnsupportedPlatform p)"
  by (simp add: tag_asset_def binaryZipRegex_def)

lemma name_version_unsupported: "name_version (Other p) n = None"
  by (simp add: name_version_def binaryZipRegex_def)




lemma getLatestRelease_feed:
  "http e (length (trace w)) releaseUrl = Some (Feed assets) \<Longrightarrow>
   getLatestRelease parse e w =
     (latest_of parse (platform e) assets, w\<lparr>trace := trace w @ [HttpGet releaseUrl]\<rparr>)"
  by (simp add: getLatestRelease_def axios_get_def)

lemma getLatestRelease_trace:
  "trace (snd (getLatestRelease parse e w)) = trace w @ [HttpGet releaseUrl]"
  by (simp add: getLatestRelease_def axios_get_def split: option.splits body.splits)



text \<open>
  \<^bold>\<open>C6\<close> (amended). On win32 and linux, when the feed request succeeds and no asset
  has a name that matches the platform's pattern (nor a \<^verbatim>\<open>version\<close> property of
  its own), \<^verbatim>\<open>_getLatestRelease\<close> does not fail: it returns \<^verbatim>\<open>null\<close>,
  having made the one request.
\<close>

theorem fetchLatest_no_match_returns_null:
  assumes feed: "http e (length (trace w)) releaseUrl = Some (Feed assets)"
    and sup: "platform e = Win32 \<or> platform e = Linux"
    and none: "\<forall>a \<in> set assets. name_version (platform e) (name a) = None \<and> version a = None"
  shows "getLatestRelease parse e w = (Inr None, w\<lparr>trace := trace w @ [HttpGet releaseUrl]\<rparr>)"
proof -
  have "tagged (platform e) a = a \<and> \<not> has_version a" if "a \<in> set assets" for a
    using none that by (simp add: tagged_def has_version_def)
  then have "matchingAssets (map (tagged (platform e)) assets) = []"
    by (auto simp: matchingAssets_def filter_empty_conv)
  then have "latest_of parse (platform e) assets = Inr None"
    using sup by (simp add: latest_of_def map_assets_supported)
  with feed show ?thesis by (simp add: getLatestRelease_feed)
qed

text \<open>
  \<^bold>\<open>C7\<close> (amended). On a platform other than win32 and linux,
  \<^verbatim>\<open>_getLatestRelease\<close> performs the HTTP request for the release feed first, in
  every execution; when the response lists at least one asset it then fails with the
  error of the unsupported platform.
\<close>

theorem fetchLatest_unsupported_after_request:
  assumes "platform e = Other p"
  shows "trace (snd (getLatestRelease parse e w)) = trace w @ [HttpGet releaseUrl]
         \<and> (http e (length (trace w)) releaseUrl = Some (Feed (a # as)) \<longrightarrow>
              fst (getLatestRelease parse e w) = Inl (UnsupportedPlatform p))"
  using assms
  by (simp add: getLatestRelease_trace getLatestRelease_feed latest_of_def map_assets_unsupported
      del: map_assets.simps)

lemmas regex_eval = name_version_def binaryZipRegex_def match_at_def digits1_def digit_def
  any_char_def Let_def


lemmas release_eval = getLatestRelease_def axios_get_def latest_of_def tag_asset_def
  matchingAssets_def has_version_def pick_def

lemmas example_eval = ex_env_def ex_world_def ex_feed_def



text \<open>A feed on win32 that holds a text file and a linux archive.\<close>

theorem fetchLatest_no_match_returns_null_witness:
  "getLatestRelease semver_plain
     (ex_env Win32 [\<lparr>name = ''notes.txt'', version = None\<rparr>,
                    \<lparr>name = ''chia-1.2.0-linux.zip'', version = None\<rparr>]) ex_world =
   (Inr None, \<lparr>files = {}, trace = [HttpGet releaseUrl]\<rparr>)"
proof -
  let ?assets = "[\<lparr>name = ''notes.txt'', version = None\<rparr>,
                  \<lparr>name = ''chia-1.2.0-linux.zip'', version = None\<rparr>]"
  have feed: "http (ex_env Win32 ?assets) (length (trace ex_world)) releaseUrl = Some (Feed ?assets)"
    by (simp add: ex_env_def)
  have sup: "platform (ex_env Win32 ?assets) = Win32 \<or> platform (ex_env Win32 ?assets) = Linux"
    by (simp add: ex_env_def)
  have none: "\<forall>a \<in> set ?assets. name_version (platform (ex_env Win32 ?assets)) (name a) = None
      \<and> version a = None"
    by (simp add: ex_env_def regex_eval)
  from fetchLatest_no_match_returns_null [OF feed sup none, of semver_plain]
  show ?thesis by (simp add: ex_world_def)
qed

text \<open>
  As first stated the property has the call fail. On linux, with a feed that holds only
  a win32 archive, it returns \<^verbatim>\<open>null\<close>.
\<close>

theorem fetchLatest_no_match_counterexample:
  "name_version Linux ''chia-2.0.0-win.zip'' = None
   \<and> fst (getLatestRelease semver_plain
        (ex_env Linux [\<lparr>name = ''chia-2.0.0-win.zip'', version = None\<rparr>]) ex_world) = Inr None"
  by (simp add: example_eval release_eval regex_eval)

text \<open>On freebsd, after the directory of the binaries has been created.\<close>

theorem fetchLatest_unsupported_after_request_witness:
  "trace (snd (getLatestRelease semver_plain (ex_env (Other ''freebsd'') ex_feed)
       \<lparr>files = {}, trace = [Mkdirp ''/b'']\<rparr>)) = [Mkdirp ''/b'', HttpGet releaseUrl]
   \<and> fst (getLatestRelease semver_plain (ex_env (Other ''freebsd'') ex_feed)
       \<lparr>files = {}, trace = [Mkdirp ''/b'']\<rparr>) = Inl (UnsupportedPlatform ''freebsd'')"
proof -
  let ?e = "ex_env (Other ''freebsd'') ex_feed"
  let ?w = "\<lparr>files = {}, trace = [Mkdirp ''/b'']\<rparr>"
  have pf: "platform ?e = Other ''freebsd''"
    by (simp add: ex_env_def)
  have feed: "http ?e (length (trace ?w)) releaseUrl =
      Some (Feed (\<lparr>name = ''chia-1.2.0-linux.zip'', version = None\<rparr> #
        [\<lparr>name = ''chia-1.10.0-linux.zip'', version = None\<rparr>,
         \<lparr>name = ''chia-2.0.0-win.zip'', version = None\<rparr>]))"
    by (simp add: ex_env_def ex_feed_def)
  from fetchLatest_unsupported_after_request [OF pf, of semver_plain ?w] feed
  show ?thesis by simp
qed

text \<open>
  As first stated the property has the failing execution perform no HTTP request. On
  darwin the call fails with the platform error, and the trace holds the request.
\<close>

theorem fetchLatest_unsupported_counterexample:
  "fst (getLatestRelease semver_plain (ex_env (Other ''darwin'') ex_feed) ex_world) =
     Inl (UnsupportedPlatform ''darwin'')
   \<and> trace (snd (getLatestRelease semver_plain (ex_env (Other ''darwin'') ex_feed) ex_world)) =
     [HttpGet releaseUrl]"
  by (simp add: example_eval release_eval binaryZipRegex_def)


section \<open>Properties of the acquisition\<close>

lemma requests_mkdirp: "requests (mkdirp d w) = requests w"
  by (simp add: requests_def mkdirp_def is_request_def)

lemma extractions_mkdirp: "extractions (mkdirp d w) = extractions w"
  by (simp add: extractions_def mkdirp_def is_extraction_def)

lemma counts_axios_get:
  "requests (snd (axios_get e url w)) = requests w + 1
   \<and> extractions (snd (axios_get e url w)) = extractions w"
  by (simp add: axios_get_def requests_def extractions_def is_request_def is_extraction_def)

lemma counts_createWriteStream:
  "requests (createWriteStream p w) = requests w \<and> extractions (createWriteStream p w) = extractions w"
  by (simp add: createWriteStream_def requests_def extractions_def is_request_def is_extraction_def)

lemma counts_decompress:
  "requests (decompress z d es w) = requests w \<and> extractions (decompress z d es w) = extractions w + 1"
  by (simp add: decompress_def requests_def extractions_def is_request_def is_extraction_def)

lemma counts_unlink:
  "requests (unlink p w) = requests w \<and> extractions (unlink p w) = extractions w"
  by (simp add: unlink_def requests_def extractions_def is_request_def is_extraction_def)

lemma downloadBinary_counts:
  assumes ok: "fst (downloadBinary m e v w) = Inr ()"
  shows "requests (snd (downloadBinary m e v w)) = requests w + 1
         \<and> extractions (snd (downloadBinary m e v w)) = extractions w + 1"
proof -
  let ?tempDir = "join (tmpdir e) ''chia-binary-manager''"
  let ?w1 = "mkdirp ?tempDir w"
  let ?zip = "join ?tempDir (''chia-'' @ v @ ''.zip'')"
  from ok obtain url where url: "getDownloadUrl (platform e) v = Inr url"
    by (cases "getDownloadUrl (platform e) v") (simp_all add: downloadBinary_def Let_def)
  obtain r w2 where get: "axios_get e url ?w1 = (r, w2)"
    by (cases "axios_get e url ?w1")
  from ok url get obtain b where b: "r = Some b"
    by (cases r) (simp_all add: downloadBinary_def Let_def)
  from ok url get b have nc: "b \<noteq> Corrupt"
    by (auto simp: downloadBinary_def Let_def)
  from url get b nc have s: "snd (downloadBinary m e v w) =
      unlink ?zip (decompress ?zip (getBinaryDirectory m v) (entries b) (createWriteStream ?zip w2))"
    by (simp add: downloadBinary_def Let_def)
  from get counts_axios_get [of e url ?w1]
  have "requests w2 = requests w + 1 \<and> extractions w2 = extractions w"
    by (simp add: requests_mkdirp extractions_mkdirp)
  then show ?thesis
    unfolding s by (simp add: counts_unlink counts_decompress counts_createWriteStream)
qed

lemma binaryPath_of_eq:
  "binaryPath_of m e v = binaryDirectory m @ ''/'' @ v @ ''/'' @ binaryName (platform e)"
  by (simp add: binaryPath_of_def getBinaryDirectory_def join_def)

lemma ensure_present:
  "existsSync (binaryPath_of m e v) w \<Longrightarrow> ensureVersionExists m e v w = (Inr (), w)"
  by (simp add: ensureVersionExists_def binaryPath_of_def)

lemma ensure_absent:
  assumes "\<not> existsSync (binaryPath_of m e v) w"
  shows "ensureVersionExists m e v w =
     (case downloadBinary m e v (mkdirp (getBinaryDirectory m v) w) of
        (Inl err, w') \<Rightarrow> (Inl err, w')
      | (Inr u, w') \<Rightarrow>
          if \<not> existsSync (binaryPath_of m e v) w' then (Inl (BinaryNotFound (binaryPath_of m e v)), w')
          else (Inr (), w'))"
  using assms unfolding ensureVersionExists_def binaryPath_of_def Let_def by simp

lemma ensure_absent_ok:
  assumes absent: "\<not> existsSync (binaryPath_of m e v) w"
    and ok: "fst (ensureVersionExists m e v w) = Inr ()"
  shows "fst (downloadBinary m e v (mkdirp (getBinaryDirectory m v) w)) = Inr ()
    \<and> snd (ensureVersionExists m e v w) = snd (downloadBinary m e v (mkdirp (getBinaryDirectory m v) w))
    \<and> existsSync (binaryPath_of m e v) (snd (ensureVersionExists m e v w))"
proof -
  obtain r w' where d: "downloadBinary m e v (mkdirp (getBinaryDirectory m v) w) = (r, w')"
    by (cases "downloadBinary m e v (mkdirp (getBinaryDirectory m v) w)")
  show ?thesis
  proof (cases r)
    case (Inl err)
    with ok d absent show ?thesis by (simp add: ensure_absent)
  next
    case (Inr u)
    show ?thesis
    proof (cases "existsSync (binaryPath_of m e v) w'")
      case True
      with Inr d absent show ?thesis by (simp add: ensure_absent)
    next
      case False
      with Inr ok d absent show ?thesis by (simp add: ensure_absent)
    qed
  qed
qed

lemma ensure_ok_exists:
  assumes "fst (ensureVersionExists m e v w) = Inr ()"
  shows "existsSync (binaryPath_of m e v) (snd (ensureVersionExists m e v w))"
proof (cases "existsSync (binaryPath_of m e v) w")
  case True
  then show ?thesis by (simp add: ensure_present)
next
  case False
  from ensure_absent_ok [OF False assms] show ?thesis by blast
qed

lemma ensure_ok_counts:
  assumes ok: "fst (ensureVersionExists m e v w) = Inr ()"
    and absent: "\<not> existsSync (binaryPath_of m e v) w"
  shows "requests (snd (ensureVersionExists m e v w)) = requests w + 1
         \<and> extractions (snd (ensureVersionExists m e v w)) = extractions w + 1"
proof -
  let ?w0 = "mkdirp (getBinaryDirectory m v) w"
  from ensure_absent_ok [OF absent ok] have d: "fst (downloadBinary m e v ?w0) = Inr ()"
    and s: "snd (ensureVersionExists m e v w) = snd (downloadBinary m e v ?w0)"
    by blast+
  from downloadBinary_counts [OF d] s show ?thesis
    by (simp add: requests_mkdirp extractions_mkdirp)
qed

lemma binaryPath_of_platform:
  "platform e' = platform e \<Longrightarrow> binaryPath_of m e' v = binaryPath_of m e v"
  by (simp add: binaryPath_of_def)

text \<open>
  \<^bold>\<open>C1.\<close> The binary of version \<open>v\<close> lives at
  \<^verbatim>\<open><binaryDirectory>/<version>/<binaryName>\<close>. When a first
  \<^verbatim>\<open>_ensureVersionExists(v)\<close> succeeds, the file exists afterwards, and a second
  call, whatever the network would answer by then, returns at once and leaves the
  filesystem and the trace of effects as they are. If the file was absent at the start,
  the first call made exactly one request and one extraction, so the two calls together
  download and extract exactly once; if it was present, the first call changed nothing
  either.
\<close>

theorem ensure_twice_downloads_once:
  assumes "fst (ensureVersionExists m e v w) = Inr ()"
  shows "binaryPath_of m e v = binaryDirectory m @ ''/'' @ v @ ''/'' @ binaryName (platform e)
    \<and> existsSync (binaryPath_of m e v) (snd (ensureVersionExists m e v w))
    \<and> (platform e' = platform e \<longrightarrow>
         ensureVersionExists m e' v (snd (ensureVersionExists m e v w)) =
           (Inr (), snd (ensureVersionExists m e v w)))
    \<and> (\<not> existsSync (binaryPath_of m e v) w \<longrightarrow>
         requests (snd (ensureVersionExists m e v w)) = requests w + 1
         \<and> extractions (snd (ensureVersionExists m e v w)) = extractions w + 1)
    \<and> (existsSync (binaryPath_of m e v) w \<longrightarrow> snd (ensureVersionExists m e v w) = w)"
proof -
  let ?w1 = "snd (ensureVersionExists m e v w)"
  have ex: "existsSync (binaryPath_of m e v) ?w1"
    using assms by (rule ensure_ok_exists)
  have again: "ensureVersionExists m e' v ?w1 = (Inr (), ?w1)" if "platform e' = platform e"
  proof -
    from that have "binaryPath_of m e' v = binaryPath_of m e v"
      by (rule binaryPath_of_platform)
    with ex show ?thesis by (simp add: ensure_present)
  qed
  have once: "requests ?w1 = requests w + 1 \<and> extractions ?w1 = extractions w + 1"
    if "\<not> existsSync (binaryPath_of m e v) w"
    using assms that by (rule ensure_ok_counts)
  have same: "?w1 = w" if "existsSync (binaryPath_of m e v) w"
    using that by (simp add: ensure_present)
  have path: "binaryPath_of m e v = binaryDirectory m @ ''/'' @ v @ ''/'' @ binaryName (platform e)"
    by (rule binaryPath_of_eq)
  from path ex again once same show ?thesis
    by blast
qed

lemmas fs_eval = ensureVersionExists_def downloadBinary_def getDownloadUrl_def getBinaryDirectory_def
  binaryName_def join_def existsSync_def axios_get_def mkdirp_def createWriteStream_def
  decompress_def unlink_def entries_def Let_def

lemmas manager_eval = ex_manager_def new_BinaryManager_def or_default_def

text \<open>
  Version 1.2.0 on linux, from an empty disk: the first call makes one request and one
  extraction and leaves the binary in place; the second call returns the same world.
\<close>

theorem ensure_twice_downloads_once_witness:
  "fst (ensureVersionExists ex_manager (ex_env Linux ex_feed) ''1.2.0'' ex_world) = Inr ()
   \<and> binaryPath_of ex_manager (ex_env Linux ex_feed) ''1.2.0'' = ''/b/1.2.0/chia''
   \<and> existsSync (binaryPath_of ex_manager (ex_env Linux ex_feed) ''1.2.0'')
        (snd (ensureVersionExists ex_manager (ex_env Linux ex_feed) ''1.2.0'' ex_world))
   \<and> ensureVersionExists ex_manager (ex_env Linux ex_feed) ''1.2.0''
        (snd (ensureVersionExists ex_manager (ex_env Linux ex_feed) ''1.2.0'' ex_world)) =
      (Inr (), snd (ensureVersionExists ex_manager (ex_env Linux ex_feed) ''1.2.0'' ex_world))
   \<and> requests (snd (ensureVersionExists ex_manager (ex_env Linux ex_feed) ''1.2.0'' ex_world)) =
        requests ex_world + 1
   \<and> extractions (snd (ensureVersionExists ex_manager (ex_env Linux ex_feed) ''1.2.0'' ex_world)) =
        extractions ex_world + 1"
proof -
  let ?e = "ex_env Linux ex_feed"
  have ok: "fst (ensureVersionExists ex_manager ?e ''1.2.0'' ex_world) = Inr ()"
    by (simp add: fs_eval manager_eval ex_env_def ex_world_def releaseUrl_def repo_def)
  have absent: "\<not> existsSync (binaryPath_of ex_manager ?e ''1.2.0'') ex_world"
    by (simp add: existsSync_def ex_world_def)
  have p: "binaryPath_of ex_manager ?e ''1.2.0'' = ''/b/1.2.0/chia''"
    by (simp add: binaryPath_of_def getBinaryDirectory_def join_def manager_eval binaryName_def
        ex_env_def)
  from ensure_twice_downloads_once [OF ok, of ?e] ok absent p show ?thesis
    by blast
qed

section \<open>Properties of the poller and of the manager\<close>
























end
